theory Spec2Isabelle
  imports Main "HOL-Library.Word" "HOL-Library.Monad_Syntax"
begin

section \<open>RoboPredictor: the memory and its two operations\<close>

text \<open>
  The development embeds \<^verbatim>\<open>src/task1/PredictionAlgorithm/PredictionAlgorithm.cpp\<close>.
  Planet identifiers are \<^verbatim>\<open>std::uint64_t\<close>, the counters are C++ \<^verbatim>\<open>int\<close>
  (32 bits, two's complement, read with \<open>sint\<close> and compared with the signed orders).
  A \<^verbatim>\<open>std::unordered_map\<close> compares keys with \<^verbatim>\<open>==\<close>; \<^verbatim>\<open>pair_hash\<close> and
  \<^verbatim>\<open>triple_hash\<close> only choose buckets, so each container is a finite map from
  keys to values: \<^verbatim>\<open>find\<close> is application, \<^verbatim>\<open>m[k] = v\<close> is a map update.
\<close>

type_synonym u64 = "64 word"
type_synonym cint = "32 word"

record TimeStats =
  dayCount :: cint
  nightCount :: cint

record RoboMemory =
  planetObservations :: "u64 \<rightharpoonup> TimeStats"
  planetPairObservations :: "(u64 \<times> u64) \<rightharpoonup> bool"
  planetTripleObservations :: "(u64 \<times> u64 \<times> u64) \<rightharpoonup> bool"
  lastPlanetID :: "u64 option"
  lastLastPlanetID :: "u64 option"
  consecutiveDayCount :: cint

text \<open>
  The constructor runs \<^verbatim>\<open>new RoboMemory\<close>: the containers start empty, the
  optionals disengaged, and the counter takes its default member initialiser 0.
\<close>

definition new_RoboMemory :: RoboMemory where
  "new_RoboMemory =
     \<lparr> planetObservations = Map.empty,
       planetPairObservations = Map.empty,
       planetTripleObservations = Map.empty,
       lastPlanetID = None,
       lastLastPlanetID = None,
       consecutiveDayCount = 0 \<rparr>"

text \<open>The default member initialisers of \<^verbatim>\<open>TimeStats\<close>, which \<^verbatim>\<open>operator[]\<close>
  inserts for a key that is absent.\<close>

definition new_TimeStats :: TimeStats where
  "new_TimeStats = \<lparr> dayCount = 0, nightCount = 0 \<rparr>"

subsection \<open>Prediction\<close>

text \<open>
  Steps 2 and 3 of \<^verbatim>\<open>predictTimeOfDayOnNextPlanet\<close> each set a found flag and a
  value, both initialised to \<^verbatim>\<open>false\<close>. The two lookups return that pair.
\<close>

definition tripleLookup :: "RoboMemory \<Rightarrow> u64 \<Rightarrow> bool \<times> bool" where
  "tripleLookup m nextPlanetID =
     (case (lastLastPlanetID m, lastPlanetID m) of
        (Some ll, Some l) \<Rightarrow>
          (case planetTripleObservations m (ll, l, nextPlanetID) of
             Some v \<Rightarrow> (True, v)
           | None \<Rightarrow> (False, False))
      | _ \<Rightarrow> (False, False))"

definition pairLookup :: "RoboMemory \<Rightarrow> u64 \<Rightarrow> bool \<times> bool" where
  "pairLookup m nextPlanetID =
     (case lastPlanetID m of
        Some l \<Rightarrow>
          (case planetPairObservations m (l, nextPlanetID) of
             Some v \<Rightarrow> (True, v)
           | None \<Rightarrow> (False, False))
      | None \<Rightarrow> (False, False))"

text \<open>
  The method is not \<^verbatim>\<open>const\<close> and works through \<^verbatim>\<open>roboMemory_ptr\<close>, so the
  model returns the memory next to the answer. Every access in the body is a read
  (\<^verbatim>\<open>find\<close>, never \<^verbatim>\<open>operator[]\<close>).
\<close>

definition predictTimeOfDayOnNextPlanet ::
    "RoboMemory \<Rightarrow> u64 \<Rightarrow> bool \<Rightarrow> bool \<times> RoboMemory" where
  "predictTimeOfDayOnNextPlanet m nextPlanetID spaceshipComputerPrediction =
     (if 2 \<le>s consecutiveDayCount m then (False, m)
      else
        let (hasTriplePrediction, triplePrediction) = tripleLookup m nextPlanetID;
            (hasPairPrediction, pairPrediction) = pairLookup m nextPlanetID
        in if hasTriplePrediction \<and> hasPairPrediction
              \<and> triplePrediction = pairPrediction
              \<and> pairPrediction = spaceshipComputerPrediction
           then (spaceshipComputerPrediction, m)
           else
             (case planetObservations m nextPlanetID of
                Some stats \<Rightarrow> (nightCount stats <s dayCount stats, m)
              | None \<Rightarrow> (spaceshipComputerPrediction, m)))"

subsection \<open>Observation\<close>

text \<open>
  \<^verbatim>\<open>x++\<close> on an \<^verbatim>\<open>int\<close> that holds \<^verbatim>\<open>INT_MAX\<close> is signed overflow, which
  C++ leaves undefined. The model makes that a result of its own: \<open>None\<close>.
\<close>

definition INT_MAX :: cint where
  "INT_MAX = 2147483647"

definition increment :: "cint \<Rightarrow> cint option" where
  "increment x = (if x = INT_MAX then None else Some (x + 1))"

definition updateStreak :: "RoboMemory \<Rightarrow> bool \<Rightarrow> RoboMemory option" where
  "updateStreak m timeOfDayOnNextPlanet =
     (if timeOfDayOnNextPlanet
      then do { c \<leftarrow> increment (consecutiveDayCount m);
                Some (m\<lparr>consecutiveDayCount := c\<rparr>) }
      else Some (m\<lparr>consecutiveDayCount := 0\<rparr>))"

definition recordTriple :: "RoboMemory \<Rightarrow> u64 \<Rightarrow> bool \<Rightarrow> RoboMemory" where
  "recordTriple m nextPlanetID timeOfDayOnNextPlanet =
     (case (lastLastPlanetID m, lastPlanetID m) of
        (Some ll, Some l) \<Rightarrow>
          m\<lparr>planetTripleObservations :=
              (planetTripleObservations m)((ll, l, nextPlanetID) \<mapsto> timeOfDayOnNextPlanet)\<rparr>
      | _ \<Rightarrow> m)"

definition recordPair :: "RoboMemory \<Rightarrow> u64 \<Rightarrow> bool \<Rightarrow> RoboMemory" where
  "recordPair m nextPlanetID timeOfDayOnNextPlanet =
     (case lastPlanetID m of
        Some l \<Rightarrow>
          m\<lparr>planetPairObservations :=
              (planetPairObservations m)((l, nextPlanetID) \<mapsto> timeOfDayOnNextPlanet)\<rparr>
      | None \<Rightarrow> m)"

definition shiftHistory :: "RoboMemory \<Rightarrow> u64 \<Rightarrow> RoboMemory" where
  "shiftHistory m nextPlanetID =
     (let m1 = m\<lparr>lastLastPlanetID := lastPlanetID m\<rparr>
      in m1\<lparr>lastPlanetID := Some nextPlanetID\<rparr>)"

text \<open>\<^verbatim>\<open>planetObservations[nextPlanetID]\<close> yields the planet's record, creating it
  from the default member initialisers when the planet is new.\<close>

definition statsOf :: "RoboMemory \<Rightarrow> u64 \<Rightarrow> TimeStats" where
  "statsOf m nextPlanetID =
     (case planetObservations m nextPlanetID of
        Some s \<Rightarrow> s
      | None \<Rightarrow> new_TimeStats)"

text \<open>One of the record's two counters is then incremented in place.\<close>

definition updateStats :: "RoboMemory \<Rightarrow> u64 \<Rightarrow> bool \<Rightarrow> RoboMemory option" where
  "updateStats m nextPlanetID timeOfDayOnNextPlanet =
     (let stats = statsOf m nextPlanetID
      in if timeOfDayOnNextPlanet
         then do { d \<leftarrow> increment (dayCount stats);
                   Some (m\<lparr>planetObservations :=
                     (planetObservations m)(nextPlanetID \<mapsto> stats\<lparr>dayCount := d\<rparr>)\<rparr>) }
         else do { n \<leftarrow> increment (nightCount stats);
                   Some (m\<lparr>planetObservations :=
                     (planetObservations m)(nextPlanetID \<mapsto> stats\<lparr>nightCount := n\<rparr>)\<rparr>) })"

definition observeAndRecordTimeofdayOnNextPlanet ::
    "RoboMemory \<Rightarrow> u64 \<Rightarrow> bool \<Rightarrow> RoboMemory option" where
  "observeAndRecordTimeofdayOnNextPlanet m nextPlanetID timeOfDayOnNextPlanet =
     do { m1 \<leftarrow> updateStreak m timeOfDayOnNextPlanet;
          let m2 = recordTriple m1 nextPlanetID timeOfDayOnNextPlanet;
          let m3 = recordPair m2 nextPlanetID timeOfDayOnNextPlanet;
          let m4 = shiftHistory m3 nextPlanetID;
          updateStats m4 nextPlanetID timeOfDayOnNextPlanet }"

subsection \<open>Call sequences\<close>

text \<open>A caller drives one predictor through a sequence of calls; the run is undefined
  from the first call whose behaviour is.\<close>

datatype call = is_Predict: Predict u64 bool | Observe u64 bool

fun run :: "RoboMemory \<Rightarrow> call list \<Rightarrow> RoboMemory option" where
  "run m [] = Some m"
| "run m (Predict p h # cs) = run (snd (predictTimeOfDayOnNextPlanet m p h)) cs"
| "run m (Observe p t # cs) =
     (case observeAndRecordTimeofdayOnNextPlanet m p t of
        None \<Rightarrow> None
      | Some m' \<Rightarrow> run m' cs)"

text \<open>The answer of a \<^verbatim>\<open>predict\<close> call made after a call sequence on a new predictor.\<close>

definition predictAfter :: "call list \<Rightarrow> u64 \<Rightarrow> bool \<Rightarrow> bool option" where
  "predictAfter cs p h =
     (case run new_RoboMemory cs of
        None \<Rightarrow> None
      | Some m \<Rightarrow> Some (fst (predictTimeOfDayOnNextPlanet m p h)))"

subsection \<open>The increments as the machine performs them\<close>

text \<open>
  Where C++ leaves the overflowing \<^verbatim>\<open>x++\<close> undefined, the compiled method adds 1 to a
  32-bit two's-complement register, and \<^verbatim>\<open>INT_MAX\<close> becomes \<^verbatim>\<open>INT_MIN\<close>. The
  following variant of the observation has the same steps in the same order with the
  three increments as word additions; it yields the memory of
  \<open>observeAndRecordTimeofdayOnNextPlanet\<close> whenever that one yields a memory.
\<close>

definition updateStreak_wrap :: "RoboMemory \<Rightarrow> bool \<Rightarrow> RoboMemory" where
  "updateStreak_wrap m timeOfDayOnNextPlanet =
     (if timeOfDayOnNextPlanet
      then m\<lparr>consecutiveDayCount := consecutiveDayCount m + 1\<rparr>
      else m\<lparr>consecutiveDayCount := 0\<rparr>)"

definition updateStats_wrap :: "RoboMemory \<Rightarrow> u64 \<Rightarrow> bool \<Rightarrow> RoboMemory" where
  "updateStats_wrap m nextPlanetID timeOfDayOnNextPlanet =
     (let stats = statsOf m nextPlanetID
      in if timeOfDayOnNextPlanet
         then m\<lparr>planetObservations :=
                (planetObservations m)(nextPlanetID \<mapsto> stats\<lparr>dayCount := dayCount stats + 1\<rparr>)\<rparr>
         else m\<lparr>planetObservations :=
                (planetObservations m)(nextPlanetID \<mapsto> stats\<lparr>nightCount := nightCount stats + 1\<rparr>)\<rparr>)"

definition observeAndRecordTimeofdayOnNextPlanet_wrap ::
    "RoboMemory \<Rightarrow> u64 \<Rightarrow> bool \<Rightarrow> RoboMemory" where
  "observeAndRecordTimeofdayOnNextPlanet_wrap m nextPlanetID timeOfDayOnNextPlanet =
     (let m1 = updateStreak_wrap m timeOfDayOnNextPlanet;
          m2 = recordTriple m1 nextPlanetID timeOfDayOnNextPlanet;
          m3 = recordPair m2 nextPlanetID timeOfDayOnNextPlanet;
          m4 = shiftHistory m3 nextPlanetID
      in updateStats_wrap m4 nextPlanetID timeOfDayOnNextPlanet)"

fun run_wrap :: "RoboMemory \<Rightarrow> call list \<Rightarrow> RoboMemory" where
  "run_wrap m [] = m"
| "run_wrap m (Predict p h # cs) = run_wrap (snd (predictTimeOfDayOnNextPlanet m p h)) cs"
| "run_wrap m (Observe p t # cs) =
     run_wrap (observeAndRecordTimeofdayOnNextPlanet_wrap m p t) cs"

subsection \<open>Notions used to state the properties\<close>

text \<open>The tallies of a planet as integers; a planet without a record counts (0, 0).\<close>

definition dayTally :: "RoboMemory \<Rightarrow> u64 \<Rightarrow> int" where
  "dayTally m p = sint (dayCount (statsOf m p))"

definition nightTally :: "RoboMemory \<Rightarrow> u64 \<Rightarrow> int" where
  "nightTally m p = sint (nightCount (statsOf m p))"

text \<open>The number of \<^verbatim>\<open>observe\<close> calls in a call sequence.\<close>

definition observeCount :: "call list \<Rightarrow> nat" where
  "observeCount cs = length (filter (\<lambda>c. \<not> is_Predict c) cs)"

text \<open>The outcomes of the \<^verbatim>\<open>observe\<close> calls for planet \<open>P\<close> in a call sequence, in
  call order.\<close>

fun outcomesFor :: "u64 \<Rightarrow> call list \<Rightarrow> bool list" where
  "outcomesFor P [] = []"
| "outcomesFor P (Predict p h # cs) = outcomesFor P cs"
| "outcomesFor P (Observe p t # cs) =
     (if p = P then t # outcomesFor P cs else outcomesFor P cs)"

text \<open>The memory after \<open>n\<close> day observations of planet \<open>p\<close> and nothing else, for
  \<open>n\<close> from 3 on: every key is made of \<open>p\<close> alone, and both counters are \<open>n\<close> as a
  32-bit word.\<close>

definition daysOnly :: "u64 \<Rightarrow> nat \<Rightarrow> RoboMemory" where
  "daysOnly p n =
     \<lparr> planetObservations = [p \<mapsto> \<lparr>dayCount = of_nat n, nightCount = 0\<rparr>],
       planetPairObservations = [(p, p) \<mapsto> True],
       planetTripleObservations = [(p, p, p) \<mapsto> True],
       lastPlanetID = Some p,
       lastLastPlanetID = Some p,
       consecutiveDayCount = of_nat n \<rparr>"

text \<open>
  The rolling identifier window as the specification names its states. \<open>windowOf\<close>
  follows the specification's words: it reads the state off the two optionals, and has
  no state for a second-to-last planet without a last one.
\<close>

datatype window = none_seen | one_seen | two_or_more_seen

definition windowOf :: "RoboMemory \<Rightarrow> window option" where
  "windowOf m =
     (case (lastLastPlanetID m, lastPlanetID m) of
        (None, None) \<Rightarrow> Some none_seen
      | (None, Some l) \<Rightarrow> Some one_seen
      | (Some ll, Some l) \<Rightarrow> Some two_or_more_seen
      | (Some ll, None) \<Rightarrow> None)"

definition windowAfter :: "nat \<Rightarrow> window" where
  "windowAfter n = (if n = 0 then none_seen else if n = 1 then one_seen else two_or_more_seen)"

subsection \<open>Example memories\<close>

text \<open>The memory after a day on planet 1.\<close>

definition one_seen_example :: RoboMemory where
  "one_seen_example =
     \<lparr> planetObservations = [1 \<mapsto> \<lparr>dayCount = 1, nightCount = 0\<rparr>],
       planetPairObservations = Map.empty,
       planetTripleObservations = Map.empty,
       lastPlanetID = Some 1,
       lastLastPlanetID = None,
       consecutiveDayCount = 1 \<rparr>"

text \<open>The memory after a day on planet 1 followed by a day on planet 2.\<close>

definition two_days_example :: RoboMemory where
  "two_days_example =
     \<lparr> planetObservations = [1 \<mapsto> \<lparr>dayCount = 1, nightCount = 0\<rparr>,
                              2 \<mapsto> \<lparr>dayCount = 1, nightCount = 0\<rparr>],
       planetPairObservations = [(1, 2) \<mapsto> True],
       planetTripleObservations = Map.empty,
       lastPlanetID = Some 2,
       lastLastPlanetID = Some 1,
       consecutiveDayCount = 2 \<rparr>"

text \<open>That memory after a night on planet 1 and a night on planet 2.\<close>

definition four_visits_example :: RoboMemory where
  "four_visits_example =
     \<lparr> planetObservations = [1 \<mapsto> \<lparr>dayCount = 1, nightCount = 1\<rparr>,
                              2 \<mapsto> \<lparr>dayCount = 1, nightCount = 1\<rparr>],
       planetPairObservations = [(2, 1) \<mapsto> False, (1, 2) \<mapsto> False],
       planetTripleObservations = [(1, 2, 1) \<mapsto> False, (2, 1, 2) \<mapsto> False],
       lastPlanetID = Some 2,
       lastLastPlanetID = Some 1,
       consecutiveDayCount = 0 \<rparr>"

section \<open>Properties\<close>

lemma predict_snd: "snd (predictTimeOfDayOnNextPlanet m p h) = m"
  by (simp add: predictTimeOfDayOnNextPlanet_def Let_def split: prod.split option.split)

subsection \<open>Signed increments\<close>

lemma sint_INT_MAX: "sint INT_MAX = 2147483647"
  by (simp add: INT_MAX_def)

lemma sint_incr:
  assumes "x \<noteq> INT_MAX" shows "sint (x + 1) = sint x + 1"
proof -
  have "sint x \<noteq> sint INT_MAX"
    using assms word_eq_iff_signed [of x INT_MAX, where ?'a = int] by simp
  moreover have "sint x < 2 ^ 31" using sint_lt [of x] by simp
  moreover have "- (2 ^ 31) \<le> sint x" using sint_ge [of x] by simp
  ultimately have r: "- (2 ^ 31) \<le> sint x + 1" "sint x + 1 < 2 ^ 31"
    by (simp_all add: sint_INT_MAX)
  have "sint (x + 1) = signed_take_bit 31 (sint x + 1)"
    by (simp add: sint_word_ariths)
  also have "\<dots> = sint x + 1"
    using r by (simp add: signed_take_bit_int_eq_self)
  finally show ?thesis .
qed

subsection \<open>One call, then call sequences\<close>

lemma observe_net:
  "observeAndRecordTimeofdayOnNextPlanet m p t =
     (if t \<and> consecutiveDayCount m = INT_MAX then None
      else if t \<and> dayCount (statsOf m p) = INT_MAX then None
      else if \<not> t \<and> nightCount (statsOf m p) = INT_MAX then None
      else Some
        \<lparr> planetObservations = (planetObservations m)(p \<mapsto>
             (if t then (statsOf m p)\<lparr>dayCount := dayCount (statsOf m p) + 1\<rparr>
              else (statsOf m p)\<lparr>nightCount := nightCount (statsOf m p) + 1\<rparr>)),
          planetPairObservations =
            (case lastPlanetID m of
               Some l \<Rightarrow> (planetPairObservations m)((l, p) \<mapsto> t)
             | None \<Rightarrow> planetPairObservations m),
          planetTripleObservations =
            (case (lastLastPlanetID m, lastPlanetID m) of
               (Some ll, Some l) \<Rightarrow> (planetTripleObservations m)((ll, l, p) \<mapsto> t)
             | _ \<Rightarrow> planetTripleObservations m),
          lastPlanetID = Some p,
          lastLastPlanetID = lastPlanetID m,
          consecutiveDayCount = (if t then consecutiveDayCount m + 1 else 0) \<rparr>)"
  by (cases m)
     (simp add: observeAndRecordTimeofdayOnNextPlanet_def updateStreak_def recordTriple_def
      recordPair_def shiftHistory_def updateStats_def increment_def statsOf_def Let_def
      split: option.split)

lemma observe_last:
  "observeAndRecordTimeofdayOnNextPlanet m p t = Some m' \<Longrightarrow>
     lastPlanetID m' = Some p \<and> lastLastPlanetID m' = lastPlanetID m"
  by (auto simp: observe_net split: if_splits)

lemma observe_streak:
  "observeAndRecordTimeofdayOnNextPlanet m p t = Some m' \<Longrightarrow>
     sint (consecutiveDayCount m') = (if t then sint (consecutiveDayCount m) + 1 else 0)"
  by (auto simp: observe_net sint_incr split: if_splits)

lemma observe_pair:
  "observeAndRecordTimeofdayOnNextPlanet m p t = Some m' \<Longrightarrow> lastPlanetID m = Some l \<Longrightarrow>
     planetPairObservations m' = (planetPairObservations m)((l, p) \<mapsto> t)"
  by (auto simp: observe_net split: if_splits)

lemma observe_triple:
  "observeAndRecordTimeofdayOnNextPlanet m p t = Some m' \<Longrightarrow> lastPlanetID m = Some l \<Longrightarrow>
     lastLastPlanetID m = Some ll \<Longrightarrow>
     planetTripleObservations m' = (planetTripleObservations m)((ll, l, p) \<mapsto> t)"
  by (auto simp: observe_net split: if_splits)

lemma observe_dayTally:
  "observeAndRecordTimeofdayOnNextPlanet m p t = Some m' \<Longrightarrow>
     dayTally m' q = dayTally m q + (if q = p \<and> t then 1 else 0)"
  by (auto simp: observe_net dayTally_def statsOf_def sint_incr split: if_splits option.splits)

lemma observe_nightTally:
  "observeAndRecordTimeofdayOnNextPlanet m p t = Some m' \<Longrightarrow>
     nightTally m' q = nightTally m q + (if q = p \<and> \<not> t then 1 else 0)"
  by (auto simp: observe_net nightTally_def statsOf_def sint_incr split: if_splits option.splits)

lemma observe_dom:
  "observeAndRecordTimeofdayOnNextPlanet m p t = Some m' \<Longrightarrow>
     dom (planetObservations m) \<subseteq> dom (planetObservations m') \<and>
     dom (planetPairObservations m) \<subseteq> dom (planetPairObservations m') \<and>
     dom (planetTripleObservations m) \<subseteq> dom (planetTripleObservations m')"
  by (auto simp: observe_net split: if_splits option.splits)

lemma run_append:
  "run m (cs @ ds) = (case run m cs of None \<Rightarrow> None | Some m' \<Rightarrow> run m' ds)"
proof (induction cs arbitrary: m)
  case Nil
  show ?case by simp
next
  case (Cons c cs)
  show ?case by (cases c) (simp_all add: Cons.IH split: option.split)
qed

lemma run_predicts: "list_all is_Predict ps \<Longrightarrow> run m ps = Some m"
proof (induction ps)
  case Nil
  show ?case by simp
next
  case (Cons c ps)
  then show ?case by (cases c) (simp_all add: predict_snd)
qed

lemma run_streak_nonneg:
  "run m cs = Some m' \<Longrightarrow> 0 \<le> sint (consecutiveDayCount m) \<Longrightarrow>
     0 \<le> sint (consecutiveDayCount m')"
proof (induction cs arbitrary: m)
  case Nil
  then show ?case by simp
next
  case (Cons c cs)
  show ?case
  proof (cases c)
    case (Predict p h)
    with Cons show ?thesis by (simp add: predict_snd)
  next
    case (Observe p t)
    with Cons.prems obtain m1 where
      o: "observeAndRecordTimeofdayOnNextPlanet m p t = Some m1" and r: "run m1 cs = Some m'"
      by (auto split: option.splits)
    from observe_streak [OF o] Cons.prems(2) have "0 \<le> sint (consecutiveDayCount m1)"
      by (simp split: if_splits)
    with Cons.IH [OF r] show ?thesis .
  qed
qed

lemma run_dom:
  "run m cs = Some m' \<Longrightarrow>
     dom (planetObservations m) \<subseteq> dom (planetObservations m') \<and>
     dom (planetPairObservations m) \<subseteq> dom (planetPairObservations m') \<and>
     dom (planetTripleObservations m) \<subseteq> dom (planetTripleObservations m')"
proof (induction cs arbitrary: m)
  case Nil
  then show ?case by simp
next
  case (Cons c cs)
  show ?case
  proof (cases c)
    case (Predict p h)
    with Cons show ?thesis by (simp add: predict_snd)
  next
    case (Observe p t)
    with Cons.prems obtain m1 where
      o: "observeAndRecordTimeofdayOnNextPlanet m p t = Some m1" and r: "run m1 cs = Some m'"
      by (auto split: option.splits)
    from Cons.IH [OF r] observe_dom [OF o] show ?thesis by blast
  qed
qed

lemma observe_window:
  "observeAndRecordTimeofdayOnNextPlanet m p t = Some m' \<Longrightarrow> windowOf m = Some (windowAfter n) \<Longrightarrow>
     windowOf m' = Some (windowAfter (Suc n))"
  by (auto simp: observe_net windowOf_def windowAfter_def split: if_splits option.splits)

lemma run_window:
  "run m cs = Some m' \<Longrightarrow> windowOf m = Some (windowAfter n) \<Longrightarrow>
     windowOf m' = Some (windowAfter (n + observeCount cs))"
proof (induction cs arbitrary: m n)
  case Nil
  then show ?case by (simp add: observeCount_def)
next
  case (Cons c cs)
  show ?case
  proof (cases c)
    case (Predict p h)
    with Cons show ?thesis by (simp add: predict_snd observeCount_def)
  next
    case (Observe p t)
    with Cons.prems obtain m1 where
      o: "observeAndRecordTimeofdayOnNextPlanet m p t = Some m1" and r: "run m1 cs = Some m'"
      by (auto split: option.splits)
    from Cons.IH [OF r observe_window [OF o Cons.prems(2)]] Observe
    show ?thesis by (simp add: observeCount_def)
  qed
qed

lemma run_tally:
  "run m cs = Some m' \<Longrightarrow>
     dayTally m' q = dayTally m q + int (count_list cs (Observe q True)) \<and>
     nightTally m' q = nightTally m q + int (count_list cs (Observe q False))"
proof (induction cs arbitrary: m)
  case Nil
  then show ?case by simp
next
  case (Cons c cs)
  show ?case
  proof (cases c)
    case (Predict p h)
    with Cons show ?thesis by (simp add: predict_snd)
  next
    case (Observe p t)
    with Cons.prems obtain m1 where
      o: "observeAndRecordTimeofdayOnNextPlanet m p t = Some m1" and r: "run m1 cs = Some m'"
      by (auto split: option.splits)
    from Cons.IH [OF r] observe_dayTally [OF o, of q] observe_nightTally [OF o, of q] Observe
    show ?thesis by auto
  qed
qed

lemma rewrite_same_key:
  assumes l0: "lastPlanetID m0 = Some a"
    and o1: "observeAndRecordTimeofdayOnNextPlanet m0 b o1 = Some m1"
    and r: "run m1 cs = Some m2"
    and l2: "lastPlanetID m2 = Some a"
    and o2: "observeAndRecordTimeofdayOnNextPlanet m2 b o2 = Some m3"
  shows "planetPairObservations m1 (a, b) = Some o1
      \<and> planetPairObservations m3 (a, b) = Some o2
      \<and> (lastLastPlanetID m0 = Some z \<longrightarrow> planetTripleObservations m1 (z, a, b) = Some o1)
      \<and> (lastLastPlanetID m2 = Some z \<longrightarrow> planetTripleObservations m3 (z, a, b) = Some o2)
      \<and> dayTally m3 b =
           dayTally m0 b + int (count_list (Observe b o1 # cs @ [Observe b o2]) (Observe b True))
      \<and> nightTally m3 b =
           nightTally m0 b + int (count_list (Observe b o1 # cs @ [Observe b o2]) (Observe b False))"
proof (intro conjI impI)
  show "planetPairObservations m1 (a, b) = Some o1"
    using observe_pair [OF o1 l0] by simp
  show "planetPairObservations m3 (a, b) = Some o2"
    using observe_pair [OF o2 l2] by simp
  have "run m0 (Observe b o1 # cs @ [Observe b o2]) = Some m3"
    using o1 r o2 by (simp add: run_append)
  from run_tally [OF this, of b]
  show "dayTally m3 b =
           dayTally m0 b + int (count_list (Observe b o1 # cs @ [Observe b o2]) (Observe b True))"
    and "nightTally m3 b =
           nightTally m0 b + int (count_list (Observe b o1 # cs @ [Observe b o2]) (Observe b False))"
    by blast+
  show "planetTripleObservations m1 (z, a, b) = Some o1" if "lastLastPlanetID m0 = Some z"
    using observe_triple [OF o1 l0 that] by simp
  show "planetTripleObservations m3 (z, a, b) = Some o2" if "lastLastPlanetID m2 = Some z"
    using observe_triple [OF o2 l2 that] by simp
qed

subsection \<open>Tallies of a planet after a history\<close>

lemma count_outcomesFor:
  "count_list cs (Observe P t) = count_list (outcomesFor P cs) t"
proof (induction cs)
  case Nil
  show ?case by simp
next
  case (Cons c cs)
  then show ?case by (cases c) auto
qed

lemma run_new_tally:
  assumes "run new_RoboMemory cs = Some m"
  shows "dayTally m P = int (count_list (outcomesFor P cs) True)"
    and "nightTally m P = int (count_list (outcomesFor P cs) False)"
  using run_tally [OF assms, of P]
  by (simp_all add: count_outcomesFor dayTally_def nightTally_def statsOf_def
      new_RoboMemory_def new_TimeStats_def)

subsection \<open>Day after day on one planet\<close>

lemma observe_wrap_agrees:
  "observeAndRecordTimeofdayOnNextPlanet m p t = Some m' \<Longrightarrow>
     observeAndRecordTimeofdayOnNextPlanet_wrap m p t = m'"
  by (auto simp: observeAndRecordTimeofdayOnNextPlanet_def
      observeAndRecordTimeofdayOnNextPlanet_wrap_def updateStreak_def updateStreak_wrap_def
      updateStats_def updateStats_wrap_def increment_def Let_def split: if_splits)

lemma run_wrap_agrees: "run m cs = Some m' \<Longrightarrow> run_wrap m cs = m'"
proof (induction cs arbitrary: m)
  case Nil
  then show ?case by simp
next
  case (Cons c cs)
  show ?case
  proof (cases c)
    case (Predict p h)
    with Cons show ?thesis by simp
  next
    case (Observe p t)
    with Cons.prems obtain m1 where
      o: "observeAndRecordTimeofdayOnNextPlanet m p t = Some m1" and r: "run m1 cs = Some m'"
      by (auto split: option.splits)
    from Cons.IH [OF r] observe_wrap_agrees [OF o] Observe show ?thesis by simp
  qed
qed

lemma of_nat_neq_INT_MAX:
  assumes "n < 2147483647" shows "(of_nat n :: cint) \<noteq> INT_MAX"
proof
  assume "(of_nat n :: cint) = INT_MAX"
  then have "unat (of_nat n :: cint) = unat INT_MAX" by simp
  moreover have "unat (of_nat n :: cint) = n" using assms by (simp add: unat_of_nat)
  moreover have "unat INT_MAX = 2147483647" by (simp add: INT_MAX_def)
  ultimately show False using assms by simp
qed

lemma observe_daysOnly:
  "observeAndRecordTimeofdayOnNextPlanet (daysOnly p n) p True =
     (if (of_nat n :: cint) = INT_MAX then None else Some (daysOnly p (Suc n)))"
  by (simp add: observe_net daysOnly_def statsOf_def add.commute)

lemma observe_wrap_daysOnly:
  "observeAndRecordTimeofdayOnNextPlanet_wrap (daysOnly p n) p True = daysOnly p (Suc n)"
  by (simp add: observeAndRecordTimeofdayOnNextPlanet_wrap_def updateStreak_wrap_def
      updateStats_wrap_def recordTriple_def recordPair_def shiftHistory_def daysOnly_def
      statsOf_def Let_def add.commute)

lemma run_daysOnly:
  "n + k \<le> 2147483647 \<Longrightarrow>
     run (daysOnly p n) (replicate k (Observe p True)) = Some (daysOnly p (n + k))"
proof (induction k arbitrary: n)
  case 0
  show ?case by simp
next
  case (Suc k)
  from Suc.prems have "n < 2147483647" and "Suc n + k \<le> 2147483647" by simp_all
  with Suc.IH [of "Suc n"] show ?case
    by (simp add: observe_daysOnly of_nat_neq_INT_MAX del: of_nat_Suc)
qed

lemma run_wrap_daysOnly:
  "run_wrap (daysOnly p n) (replicate k (Observe p True)) = daysOnly p (n + k)"
proof (induction k arbitrary: n)
  case 0
  show ?case by simp
next
  case (Suc k)
  from Suc.IH [of "Suc n"] show ?case
    by (simp add: observe_wrap_daysOnly)
qed

lemma run_wrap_append: "run_wrap m (cs @ ds) = run_wrap (run_wrap m cs) ds"
proof (induction cs arbitrary: m)
  case Nil
  show ?case by simp
next
  case (Cons c cs)
  show ?case by (cases c) (simp_all add: Cons.IH)
qed

lemma three_days:
  "run new_RoboMemory [Observe p True, Observe p True, Observe p True] = Some (daysOnly p 3)"
  by (simp add: observe_net new_RoboMemory_def statsOf_def new_TimeStats_def INT_MAX_def
      daysOnly_def)

lemma three_days_wrap:
  "run_wrap new_RoboMemory [Observe p True, Observe p True, Observe p True] = daysOnly p 3"
  using run_wrap_agrees [OF three_days] .

lemma replicate_three: "replicate 3 c = [c, c, c]"
  by (simp add: numeral_3_eq_3)

lemma max_days:
  "run new_RoboMemory (replicate 2147483647 (Observe p True)) = Some (daysOnly p 2147483647)"
proof -
  have "(2147483647::nat) = 3 + 2147483644" by simp
  then have "replicate 2147483647 (Observe p True)
      = replicate 3 (Observe p True) @ replicate 2147483644 (Observe p True)"
    by (simp only: replicate_add)
  then have "run new_RoboMemory (replicate 2147483647 (Observe p True))
      = run (daysOnly p 3) (replicate 2147483644 (Observe p True))"
    by (simp only: replicate_three run_append three_days option.case)
  also have "\<dots> = Some (daysOnly p (3 + 2147483644))"
    by (rule run_daysOnly) simp
  finally show ?thesis by simp
qed

lemma one_day_more:
  "run new_RoboMemory (replicate 2147483648 (Observe p True)) = None"
proof -
  have o: "observeAndRecordTimeofdayOnNextPlanet (daysOnly p 2147483647) p True = None"
    by (simp add: observe_daysOnly INT_MAX_def)
  have "(2147483648::nat) = 2147483647 + 1" by simp
  then have "replicate 2147483648 (Observe p True)
      = replicate 2147483647 (Observe p True) @ replicate 1 (Observe p True)"
    by (simp only: replicate_add)
  also have "replicate 1 (Observe p True) = [Observe p True]" by simp
  finally show ?thesis
    by (simp only: run_append max_days option.case run.simps o)
qed

lemma one_day_more_wrap:
  "run_wrap new_RoboMemory (replicate 2147483648 (Observe p True)) = daysOnly p 2147483648"
proof -
  have "(2147483648::nat) = 3 + 2147483645" by simp
  then have "replicate 2147483648 (Observe p True)
      = replicate 3 (Observe p True) @ replicate 2147483645 (Observe p True)"
    by (simp only: replicate_add)
  then have "run_wrap new_RoboMemory (replicate 2147483648 (Observe p True))
      = run_wrap (daysOnly p 3) (replicate 2147483645 (Observe p True))"
    by (simp only: replicate_three run_wrap_append three_days_wrap)
  also have "\<dots> = daysOnly p (3 + 2147483645)" by (rule run_wrap_daysOnly)
  finally show ?thesis by simp
qed

subsection \<open>Evaluating concrete call sequences\<close>

lemmas run_eval =
  observe_net new_RoboMemory_def statsOf_def new_TimeStats_def INT_MAX_def predict_snd

lemmas predict_eval =
  predictTimeOfDayOnNextPlanet_def tripleLookup_def pairLookup_def word_sle_eq word_sless_alt

section \<open>The claims\<close>

text \<open>
  The streak cap where no counter overflows. In every memory whose
  \<open>consecutiveDayCount\<close> is at least 2, \<^verbatim>\<open>predict\<close> answers night (\<open>False\<close>) for
  every planet and every hint, whatever the three maps hold. And such is the memory
  reached from a new predictor by a call sequence that ends with two \<^verbatim>\<open>observe\<close>
  calls reporting day, with any number of \<^verbatim>\<open>predict\<close> calls between the two, as long
  as \<open>run\<close> yields a memory, that is, as long as no increment in the sequence
  overflows.
\<close>

lemma cap_on_defined_runs:
  "(2 \<le>s consecutiveDayCount m \<longrightarrow> fst (predictTimeOfDayOnNextPlanet m q h) = False) \<and>
   (run new_RoboMemory (cs @ Observe p1 True # ps @ [Observe p2 True]) = Some m'
      \<and> list_all is_Predict ps \<longrightarrow>
    2 \<le>s consecutiveDayCount m' \<and> fst (predictTimeOfDayOnNextPlanet m' q' h') = False)"
proof (intro conjI impI)
  show cap: "fst (predictTimeOfDayOnNextPlanet m q h) = False" if "2 \<le>s consecutiveDayCount m"
    for m q h
    using that by (simp add: predictTimeOfDayOnNextPlanet_def)
  assume a: "run new_RoboMemory (cs @ Observe p1 True # ps @ [Observe p2 True]) = Some m'
    \<and> list_all is_Predict ps"
  then obtain m0 where m0: "run new_RoboMemory cs = Some m0"
    and r0: "run m0 (Observe p1 True # ps @ [Observe p2 True]) = Some m'"
    by (auto simp: run_append split: option.splits)
  from r0 obtain m1 where o1: "observeAndRecordTimeofdayOnNextPlanet m0 p1 True = Some m1"
    and r1: "run m1 (ps @ [Observe p2 True]) = Some m'"
    by (auto split: option.splits)
  from a have "run m1 ps = Some m1" by (simp add: run_predicts)
  with r1 have o2: "observeAndRecordTimeofdayOnNextPlanet m1 p2 True = Some m'"
    by (auto simp: run_append split: option.splits)
  have "0 \<le> sint (consecutiveDayCount m0)"
    using run_streak_nonneg [OF m0] by (simp add: new_RoboMemory_def)
  with observe_streak [OF o1] observe_streak [OF o2]
  have "2 \<le> sint (consecutiveDayCount m')" by simp
  then show s: "2 \<le>s consecutiveDayCount m'" by (simp add: word_sle_eq)
  from cap [OF s] show "fst (predictTimeOfDayOnNextPlanet m' q' h') = False" .
qed

text \<open>The cap at work: a day on planet 1, a prediction, a day on planet 2, and the
  prediction for the unseen planet 3 is night although the hint says day.\<close>

lemma cap_on_defined_runs_example:
  "2 \<le>s consecutiveDayCount two_days_example \<and>
   run new_RoboMemory ([] @ Observe 1 True # [Predict 2 True] @ [Observe 2 True])
     = Some two_days_example \<and>
   list_all is_Predict [Predict 2 True] \<and>
   fst (predictTimeOfDayOnNextPlanet two_days_example 3 True) = False"
proof -
  have r: "run new_RoboMemory ([] @ Observe 1 True # [Predict 2 True] @ [Observe 2 True])
      = Some two_days_example"
    by (simp add: run_eval two_days_example_def)
  have p: "list_all is_Predict [Predict 2 True]" by simp
  have s: "2 \<le>s consecutiveDayCount two_days_example"
    by (simp add: two_days_example_def word_sle_eq)
  from cap_on_defined_runs [of two_days_example 3 True "[]" 1 "[Predict 2 True]" 2 two_days_example 3 True]
    r p s
  show ?thesis by simp
qed

text \<open>
  C1. Streak cap: \<^verbatim>\<open>predict\<close> answers night in every reachable memory whose
  \<open>consecutiveDayCount\<close> is at least 2, in particular after any two consecutive
  \<^verbatim>\<open>observe\<close> calls reporting day. The code does not keep the second half. The streak
  counter is an \<^verbatim>\<open>int\<close> that \<^verbatim>\<open>consecutiveDayCount++\<close> increments without a guard.
  After 2147483647 day observations of planet 1, every one of them defined, it holds
  \<^verbatim>\<open>INT_MAX\<close>. One more day observation, the second of two consecutive ones, overflows
  it: C++ leaves the call undefined, and on the machine the counter becomes -2147483648,
  the test \<^verbatim>\<open>consecutiveDayCount >= 2\<close> fails, and \<^verbatim>\<open>predict\<close> for the unseen planet
  2 with hint day answers day.
\<close>

theorem streak_cap_overflow:
  "run new_RoboMemory (replicate 2147483647 (Observe 1 True)) = Some (daysOnly 1 2147483647)
   \<and> consecutiveDayCount (daysOnly 1 2147483647) = INT_MAX
   \<and> run new_RoboMemory (replicate 2147483648 (Observe 1 True)) = None
   \<and> consecutiveDayCount (run_wrap new_RoboMemory (replicate 2147483648 (Observe 1 True)))
       = - 2147483648
   \<and> fst (predictTimeOfDayOnNextPlanet
        (run_wrap new_RoboMemory (replicate 2147483648 (Observe 1 True))) 2 True) = True"
proof (intro conjI)
  show "run new_RoboMemory (replicate 2147483647 (Observe 1 True))
      = Some (daysOnly 1 2147483647)"
    by (rule max_days)
  show "consecutiveDayCount (daysOnly 1 2147483647) = INT_MAX"
    by (simp add: daysOnly_def INT_MAX_def)
  show "run new_RoboMemory (replicate 2147483648 (Observe 1 True)) = None"
    by (rule one_day_more)
  show "consecutiveDayCount (run_wrap new_RoboMemory (replicate 2147483648 (Observe 1 True)))
      = - 2147483648"
    by (simp only: one_day_more_wrap) (simp add: daysOnly_def)
  show "fst (predictTimeOfDayOnNextPlanet
      (run_wrap new_RoboMemory (replicate 2147483648 (Observe 1 True))) 2 True) = True"
    by (simp only: one_day_more_wrap) (simp add: daysOnly_def predict_eval)
qed

text \<open>
  C2. Triple consensus. When \<open>consecutiveDayCount\<close> is below 2, both last-planet
  identifiers are defined, and the triple record for (second-to-last, last, next) and the
  pair record for (last, next) both exist and both equal the spaceship's hint,
  \<^verbatim>\<open>predict\<close> answers that value. The planet's own tally is not a hypothesis: the
  answer is the same whatever it says.
\<close>

theorem triple_consensus:
  assumes "consecutiveDayCount m <s 2"
    and "lastLastPlanetID m = Some a"
    and "lastPlanetID m = Some b"
    and "planetTripleObservations m (a, b, nextPlanetID) = Some spaceshipHint"
    and "planetPairObservations m (b, nextPlanetID) = Some spaceshipHint"
  shows "fst (predictTimeOfDayOnNextPlanet m nextPlanetID spaceshipHint) = spaceshipHint"
  using assms by (simp add: predict_eval)

text \<open>A history that ends on planets 1 then 2, in which planet 3 followed them by
  day once but was night twice before: the answer for planet 3 with hint day is day,
  against the tally of one day and two nights.\<close>

theorem triple_consensus_witness:
  "\<exists>m. run new_RoboMemory
          [Observe 3 False, Observe 3 False, Observe 1 False, Observe 2 False,
           Observe 3 True, Observe 1 False, Observe 2 True] = Some m
     \<and> consecutiveDayCount m <s 2
     \<and> lastLastPlanetID m = Some 1
     \<and> lastPlanetID m = Some 2
     \<and> planetTripleObservations m (1, 2, 3) = Some True
     \<and> planetPairObservations m (2, 3) = Some True
     \<and> planetObservations m 3 = Some \<lparr>dayCount = 1, nightCount = 2\<rparr>
     \<and> fst (predictTimeOfDayOnNextPlanet m 3 True) = True"
proof -
  let ?cs = "[Observe 3 False, Observe 3 False, Observe 1 False, Observe 2 False,
              Observe 3 True, Observe 1 False, Observe 2 True]"
  let ?m = "the (run new_RoboMemory ?cs)"
  have r: "run new_RoboMemory ?cs = Some ?m"
    by (simp add: run_eval)
  have h: "consecutiveDayCount ?m <s 2"
    "lastLastPlanetID ?m = Some 1"
    "lastPlanetID ?m = Some 2"
    "planetTripleObservations ?m (1, 2, 3) = Some True"
    "planetPairObservations ?m (2, 3) = Some True"
    by (simp_all add: run_eval word_sless_alt)
  have t: "planetObservations ?m 3 = Some \<lparr>dayCount = 1, nightCount = 2\<rparr>"
    by (simp add: run_eval)
  from triple_consensus [OF h] r h t show ?thesis
    by (intro exI [of _ ?m]) blast
qed

text \<open>
  C3. What one \<^verbatim>\<open>observe\<close> call does. Unless one of the two \<^verbatim>\<open>int\<close> counters it
  increments already holds \<^verbatim>\<open>INT_MAX\<close>, the call yields the memory in which: the
  streak is the old streak plus one on day and 0 on night; the triple map has the
  outcome stored under (old second-to-last, old last, next) when both old identifiers
  are defined, and is unchanged otherwise; the pair map has the outcome stored under
  (old last, next) when the old last identifier is defined, and is unchanged otherwise;
  the second-to-last identifier is the old last one and the last identifier is the
  planet observed; and the planet's record, created at (0, 0) when absent, has its day
  counter (on day) or night counter (on night) one higher. Every field is given by the
  memory before the call, so the keys are those of the identifiers before the shift.

  Consequently, when two \<^verbatim>\<open>observe\<close> calls for planet \<open>b\<close> are both made with last
  planet \<open>a\<close> (any calls \<open>cs\<close> between them), the pair map holds the first outcome
  after the first call and only the second outcome after the second, and the same for
  the triple map under (\<open>z\<close>, \<open>a\<close>, \<open>b\<close>); whereas the planet's day and night tallies
  have grown by the number of day and of night observations of \<open>b\<close> among all the
  calls, the two included.
\<close>

theorem observe_updates:
  "observeAndRecordTimeofdayOnNextPlanet m nextPlanetID actualOutcome =
     (if actualOutcome \<and> consecutiveDayCount m = INT_MAX then None
      else if actualOutcome \<and> dayCount (statsOf m nextPlanetID) = INT_MAX then None
      else if \<not> actualOutcome \<and> nightCount (statsOf m nextPlanetID) = INT_MAX then None
      else Some
        \<lparr> planetObservations = (planetObservations m)(nextPlanetID \<mapsto>
             (if actualOutcome
              then (statsOf m nextPlanetID)\<lparr>dayCount := dayCount (statsOf m nextPlanetID) + 1\<rparr>
              else (statsOf m nextPlanetID)\<lparr>nightCount := nightCount (statsOf m nextPlanetID) + 1\<rparr>)),
          planetPairObservations =
            (case lastPlanetID m of
               Some l \<Rightarrow> (planetPairObservations m)((l, nextPlanetID) \<mapsto> actualOutcome)
             | None \<Rightarrow> planetPairObservations m),
          planetTripleObservations =
            (case (lastLastPlanetID m, lastPlanetID m) of
               (Some ll, Some l) \<Rightarrow>
                 (planetTripleObservations m)((ll, l, nextPlanetID) \<mapsto> actualOutcome)
             | _ \<Rightarrow> planetTripleObservations m),
          lastPlanetID = Some nextPlanetID,
          lastLastPlanetID = lastPlanetID m,
          consecutiveDayCount = (if actualOutcome then consecutiveDayCount m + 1 else 0) \<rparr>)
   \<and> (lastPlanetID m0 = Some a
        \<and> observeAndRecordTimeofdayOnNextPlanet m0 b o1 = Some m1
        \<and> run m1 cs = Some m2
        \<and> lastPlanetID m2 = Some a
        \<and> observeAndRecordTimeofdayOnNextPlanet m2 b o2 = Some m3 \<longrightarrow>
      planetPairObservations m1 (a, b) = Some o1
      \<and> planetPairObservations m3 (a, b) = Some o2
      \<and> (lastLastPlanetID m0 = Some z \<longrightarrow> planetTripleObservations m1 (z, a, b) = Some o1)
      \<and> (lastLastPlanetID m2 = Some z \<longrightarrow> planetTripleObservations m3 (z, a, b) = Some o2)
      \<and> dayTally m3 b =
           dayTally m0 b + int (count_list (Observe b o1 # cs @ [Observe b o2]) (Observe b True))
      \<and> nightTally m3 b =
           nightTally m0 b + int (count_list (Observe b o1 # cs @ [Observe b o2]) (Observe b False)))"
proof (rule conjI [OF observe_net], rule impI)
  assume "lastPlanetID m0 = Some a
        \<and> observeAndRecordTimeofdayOnNextPlanet m0 b o1 = Some m1
        \<and> run m1 cs = Some m2
        \<and> lastPlanetID m2 = Some a
        \<and> observeAndRecordTimeofdayOnNextPlanet m2 b o2 = Some m3"
  then show "planetPairObservations m1 (a, b) = Some o1
      \<and> planetPairObservations m3 (a, b) = Some o2
      \<and> (lastLastPlanetID m0 = Some z \<longrightarrow> planetTripleObservations m1 (z, a, b) = Some o1)
      \<and> (lastLastPlanetID m2 = Some z \<longrightarrow> planetTripleObservations m3 (z, a, b) = Some o2)
      \<and> dayTally m3 b =
           dayTally m0 b + int (count_list (Observe b o1 # cs @ [Observe b o2]) (Observe b True))
      \<and> nightTally m3 b =
           nightTally m0 b + int (count_list (Observe b o1 # cs @ [Observe b o2]) (Observe b False))"
    using rewrite_same_key [of m0 a b o1 m1 cs m2 o2 m3 z] by blast
qed

text \<open>Planet 3 is observed twice after planets 1 and 2, first as day and later as
  night: the pair and triple records keep only the night, the tally keeps both.\<close>

theorem observe_updates_witness:
  "\<exists>m1 m2 m3.
     lastPlanetID two_days_example = Some 2
     \<and> lastLastPlanetID two_days_example = Some 1
     \<and> observeAndRecordTimeofdayOnNextPlanet two_days_example 3 True = Some m1
     \<and> run m1 [Observe 1 False, Observe 2 False] = Some m2
     \<and> lastPlanetID m2 = Some 2
     \<and> lastLastPlanetID m2 = Some 1
     \<and> observeAndRecordTimeofdayOnNextPlanet m2 3 False = Some m3
     \<and> planetPairObservations m1 (2, 3) = Some True
     \<and> planetPairObservations m3 (2, 3) = Some False
     \<and> planetTripleObservations m1 (1, 2, 3) = Some True
     \<and> planetTripleObservations m3 (1, 2, 3) = Some False
     \<and> dayTally two_days_example 3 = 0
     \<and> nightTally two_days_example 3 = 0
     \<and> dayTally m3 3 = 1
     \<and> nightTally m3 3 = 1"
proof -
  let ?cs = "[Observe 1 False, Observe 2 False]"
  let ?m1 = "the (observeAndRecordTimeofdayOnNextPlanet two_days_example 3 True)"
  let ?m2 = "the (run ?m1 ?cs)"
  let ?m3 = "the (observeAndRecordTimeofdayOnNextPlanet ?m2 3 False)"
  have h: "lastPlanetID two_days_example = Some 2
     \<and> observeAndRecordTimeofdayOnNextPlanet two_days_example 3 True = Some ?m1
     \<and> run ?m1 ?cs = Some ?m2
     \<and> lastPlanetID ?m2 = Some 2
     \<and> observeAndRecordTimeofdayOnNextPlanet ?m2 3 False = Some ?m3"
    by (simp add: run_eval two_days_example_def)
  have z: "lastLastPlanetID two_days_example = Some 1" "lastLastPlanetID ?m2 = Some 1"
    by (simp_all add: run_eval two_days_example_def)
  have t: "dayTally two_days_example 3 = 0" "nightTally two_days_example 3 = 0"
    by (simp_all add: dayTally_def nightTally_def run_eval two_days_example_def)
  note u = observe_updates
    [of two_days_example 3 True two_days_example 2 3 True ?m1 ?cs ?m2 False ?m3 1,
      THEN conjunct2, THEN mp, OF h]
  from u z have c: "planetPairObservations ?m1 (2, 3) = Some True
     \<and> planetPairObservations ?m3 (2, 3) = Some False
     \<and> planetTripleObservations ?m1 (1, 2, 3) = Some True
     \<and> planetTripleObservations ?m3 (1, 2, 3) = Some False"
    by blast
  from u t have d: "dayTally ?m3 3 = 1 \<and> nightTally ?m3 3 = 1"
    by simp
  from h z t c d show ?thesis
    by (intro exI [of _ ?m1] exI [of _ ?m2] exI [of _ ?m3]) blast
qed

text \<open>
  C4. Single-planet fallback. When \<open>consecutiveDayCount\<close> is below 2 and the consensus
  condition does not hold (there are no two defined last-planet identifiers whose triple
  and pair records for the next planet both equal the hint), and the next planet has a
  record, \<^verbatim>\<open>predict\<close> answers day exactly when the record's day counter is strictly
  greater than its night counter. On a tie it answers night, whatever the hint.
\<close>

theorem single_planet_fallback:
  assumes "consecutiveDayCount m <s 2"
    and "\<not> (\<exists>a b. lastLastPlanetID m = Some a \<and> lastPlanetID m = Some b
            \<and> planetTripleObservations m (a, b, nextPlanetID) = Some spaceshipHint
            \<and> planetPairObservations m (b, nextPlanetID) = Some spaceshipHint)"
    and "planetObservations m nextPlanetID = Some stats"
  shows "fst (predictTimeOfDayOnNextPlanet m nextPlanetID spaceshipHint)
           = (sint (nightCount stats) < sint (dayCount stats))
         \<and> (dayCount stats = nightCount stats \<longrightarrow>
              fst (predictTimeOfDayOnNextPlanet m nextPlanetID spaceshipHint) = False)"
  using assms by (auto simp: predict_eval split: option.splits)

text \<open>A history that ends on planets 1 then 2, in which planet 3 was night after
  planets 1, 2 and day after planets 4, 2: the triple record says night, the pair record
  and the hint say day, the tally is tied at one each, and the answer is night.\<close>

theorem single_planet_fallback_witness:
  "\<exists>m. run new_RoboMemory
          [Observe 1 False, Observe 2 False, Observe 3 False, Observe 4 False,
           Observe 2 False, Observe 3 True, Observe 1 False, Observe 2 False] = Some m
     \<and> consecutiveDayCount m <s 2
     \<and> lastLastPlanetID m = Some 1
     \<and> lastPlanetID m = Some 2
     \<and> planetTripleObservations m (1, 2, 3) = Some False
     \<and> planetPairObservations m (2, 3) = Some True
     \<and> \<not> (\<exists>a b. lastLastPlanetID m = Some a \<and> lastPlanetID m = Some b
            \<and> planetTripleObservations m (a, b, 3) = Some True
            \<and> planetPairObservations m (b, 3) = Some True)
     \<and> planetObservations m 3 = Some \<lparr>dayCount = 1, nightCount = 1\<rparr>
     \<and> fst (predictTimeOfDayOnNextPlanet m 3 True) = False"
proof -
  let ?cs = "[Observe 1 False, Observe 2 False, Observe 3 False, Observe 4 False,
              Observe 2 False, Observe 3 True, Observe 1 False, Observe 2 False]"
  let ?m = "the (run new_RoboMemory ?cs)"
  have r: "run new_RoboMemory ?cs = Some ?m"
    by (simp add: run_eval)
  have h: "consecutiveDayCount ?m <s 2"
    "\<not> (\<exists>a b. lastLastPlanetID ?m = Some a \<and> lastPlanetID ?m = Some b
            \<and> planetTripleObservations ?m (a, b, 3) = Some True
            \<and> planetPairObservations ?m (b, 3) = Some True)"
    "planetObservations ?m 3 = Some \<lparr>dayCount = 1, nightCount = 1\<rparr>"
    by (simp_all add: run_eval word_sless_alt)
  have l: "lastLastPlanetID ?m = Some 1" "lastPlanetID ?m = Some 2"
    "planetTripleObservations ?m (1, 2, 3) = Some False"
    "planetPairObservations ?m (2, 3) = Some True"
    by (simp_all add: run_eval)
  from single_planet_fallback [OF h] have "fst (predictTimeOfDayOnNextPlanet ?m 3 True) = False"
    by simp
  with r h l show ?thesis
    by (intro exI [of _ ?m]) blast
qed

text \<open>
  C5. On a newly constructed predictor the first \<^verbatim>\<open>predict\<close> call answers with the
  spaceship's hint, whatever the planet and the hint.
\<close>

theorem predict_fresh_returns_hint:
  "fst (predictTimeOfDayOnNextPlanet new_RoboMemory x hint) = hint"
  by (simp add: predict_eval new_RoboMemory_def)

text \<open>
  C6. Single-history majority. On a new predictor, let a call sequence contain exactly
  three \<^verbatim>\<open>observe\<close> calls for planet \<open>P\<close>, with outcomes day, day, night in that
  order, among any other calls. If afterwards the streak is below 2 (it was reset, so the
  streak rule does not fire) and the triple and pair records for \<open>P\<close> after the last two
  planets do not both hold night (in particular when neither record exists: no matching
  pair or triple), then the record of \<open>P\<close> counts two days and one night and
  \<^verbatim>\<open>predict(P, false)\<close> answers day: the strict majority decides, against the hint.
\<close>

theorem single_history_majority:
  assumes r: "run new_RoboMemory cs = Some m"
    and o: "outcomesFor P cs = [True, True, False]"
    and s: "consecutiveDayCount m <s 2"
    and n: "\<not> (\<exists>a b. lastLastPlanetID m = Some a \<and> lastPlanetID m = Some b
            \<and> planetTripleObservations m (a, b, P) = Some False
            \<and> planetPairObservations m (b, P) = Some False)"
  shows "planetObservations m P = Some \<lparr>dayCount = 2, nightCount = 1\<rparr>
         \<and> fst (predictTimeOfDayOnNextPlanet m P False) = True"
proof -
  have d: "dayTally m P = 2" and g: "nightTally m P = 1"
    using run_new_tally [OF r, of P] o by simp_all
  have "planetObservations m P \<noteq> None"
    using d by (auto simp: dayTally_def statsOf_def new_TimeStats_def split: option.splits)
  then obtain st where st: "planetObservations m P = Some st" by auto
  with d g have c: "sint (dayCount st) = 2" "sint (nightCount st) = 1"
    by (simp_all add: dayTally_def nightTally_def statsOf_def)
  have "dayCount st = 2"
    using c(1) word_eq_iff_signed [of "dayCount st" 2, where ?'a = int] by simp
  moreover have "nightCount st = 1"
    using c(2) word_eq_iff_signed [of "nightCount st" 1, where ?'a = int] by simp
  ultimately have e: "st = \<lparr>dayCount = 2, nightCount = 1\<rparr>" by (cases st) simp
  have "fst (predictTimeOfDayOnNextPlanet m P False) = True"
    using s n st c by (auto simp: predict_eval split: option.splits)
  with st e show ?thesis by simp
qed

text \<open>Planet 7 by day, by day and by night, each visit but the last followed by a night on
  planet 8, with a prediction asked on the way: no pair (7, 7) and no triple (8, 7, 7)
  was ever recorded, and \<^verbatim>\<open>predict(7, false)\<close> answers day.\<close>

theorem single_history_majority_witness:
  "\<exists>m. run new_RoboMemory
          [Observe 7 True, Observe 8 False, Predict 7 False, Observe 7 True, Observe 8 False,
           Observe 7 False] = Some m
     \<and> outcomesFor 7
          [Observe 7 True, Observe 8 False, Predict 7 False, Observe 7 True, Observe 8 False,
           Observe 7 False] = [True, True, False]
     \<and> consecutiveDayCount m <s 2
     \<and> lastLastPlanetID m = Some 8
     \<and> lastPlanetID m = Some 7
     \<and> planetTripleObservations m (8, 7, 7) = None
     \<and> planetPairObservations m (7, 7) = None
     \<and> planetObservations m 7 = Some \<lparr>dayCount = 2, nightCount = 1\<rparr>
     \<and> fst (predictTimeOfDayOnNextPlanet m 7 False) = True"
proof -
  let ?cs = "[Observe 7 True, Observe 8 False, Predict 7 False, Observe 7 True, Observe 8 False,
              Observe 7 False]"
  let ?m = "the (run new_RoboMemory ?cs)"
  have r: "run new_RoboMemory ?cs = Some ?m"
    by (simp add: run_eval)
  have o: "outcomesFor 7 ?cs = [True, True, False]" by simp
  have s: "consecutiveDayCount ?m <s 2" by (simp add: run_eval word_sless_alt)
  have l: "lastLastPlanetID ?m = Some 8" "lastPlanetID ?m = Some 7"
    "planetTripleObservations ?m (8, 7, 7) = None"
    "planetPairObservations ?m (7, 7) = None"
    by (simp_all add: run_eval)
  from l have n: "\<not> (\<exists>a b. lastLastPlanetID ?m = Some a \<and> lastPlanetID ?m = Some b
            \<and> planetTripleObservations ?m (a, b, 7) = Some False
            \<and> planetPairObservations ?m (b, 7) = Some False)"
    by simp
  from single_history_majority [OF r o s n] r o s l show ?thesis
    by (intro exI [of _ ?m]) blast
qed

text \<open>The hypothesis on the two records is needed. When the three observations of \<open>P\<close>
  are the only calls, they record night under the pair (\<open>P\<close>, \<open>P\<close>) and the triple
  (\<open>P\<close>, \<open>P\<close>, \<open>P\<close>); these match, agree with the hint, and the answer is night.\<close>

lemma day_day_night_back_to_back:
  "predictAfter [Observe P True, Observe P True, Observe P False] P False = Some False"
  by (simp add: predictAfter_def run_eval predict_eval)

text \<open>
  C7. \<^verbatim>\<open>predict\<close> leaves the memory as it found it: the memory returned with the
  answer is the memory passed in, for every memory, planet and hint, so the three maps,
  the two optional identifiers and the streak counter are all unchanged.
\<close>

theorem predict_read_only:
  "snd (predictTimeOfDayOnNextPlanet m nextPlanetID spaceshipHint) = m"
  by (simp add: predictTimeOfDayOnNextPlanet_def Let_def split: prod.split option.split)

text \<open>
  C9. The identifier window. After any call sequence on a new predictor the window is
  in the state the number of \<^verbatim>\<open>observe\<close> calls gives: none seen after none, one seen
  after one, two or more seen after two or more; so the second-to-last identifier is
  defined only if the last one is. And from such a memory, further calls never make a
  defined identifier undefined.
\<close>

theorem window_progress:
  "(run new_RoboMemory cs = Some m \<longrightarrow>
      windowOf m = Some (windowAfter (observeCount cs))
      \<and> (lastLastPlanetID m \<noteq> None \<longrightarrow> lastPlanetID m \<noteq> None))
   \<and> (run new_RoboMemory cs = Some m \<and> run m ds = Some m' \<longrightarrow>
      (lastPlanetID m \<noteq> None \<longrightarrow> lastPlanetID m' \<noteq> None)
      \<and> (lastLastPlanetID m \<noteq> None \<longrightarrow> lastLastPlanetID m' \<noteq> None))"
proof -
  have w0: "windowOf new_RoboMemory = Some (windowAfter 0)"
    by (simp add: windowOf_def windowAfter_def new_RoboMemory_def)
  have a: "windowOf m = Some (windowAfter (observeCount cs))" if "run new_RoboMemory cs = Some m"
    using run_window [OF that w0] by simp
  have b: "lastLastPlanetID m \<noteq> None \<longrightarrow> lastPlanetID m \<noteq> None"
    if "run new_RoboMemory cs = Some m"
    using a [OF that] by (auto simp: windowOf_def split: option.splits)
  have c: "(lastPlanetID m \<noteq> None \<longrightarrow> lastPlanetID m' \<noteq> None)
      \<and> (lastLastPlanetID m \<noteq> None \<longrightarrow> lastLastPlanetID m' \<noteq> None)"
    if "run new_RoboMemory cs = Some m" and "run m ds = Some m'"
    using a [OF that(1)] run_window [OF that(2) a [OF that(1)]]
    by (auto simp: windowOf_def windowAfter_def split: option.splits if_splits)
  from a b c show ?thesis by blast
qed

text \<open>One \<^verbatim>\<open>observe\<close> call gives the one-seen window, a second one the
  two-or-more-seen window, and the last identifier stays defined.\<close>

theorem window_progress_witness:
  "run new_RoboMemory [Observe 1 True] = Some one_seen_example \<and>
   run one_seen_example [Predict 2 True, Observe 2 True] = Some two_days_example \<and>
   windowOf new_RoboMemory = Some none_seen \<and>
   windowOf one_seen_example = Some one_seen \<and>
   windowOf two_days_example = Some two_or_more_seen \<and>
   lastPlanetID one_seen_example \<noteq> None \<and>
   lastLastPlanetID one_seen_example = None \<and>
   lastPlanetID two_days_example \<noteq> None \<and>
   lastLastPlanetID two_days_example \<noteq> None"
proof -
  have r: "run new_RoboMemory [Observe 1 True] = Some one_seen_example"
    "run one_seen_example [Predict 2 True, Observe 2 True] = Some two_days_example"
    by (simp_all add: run_eval one_seen_example_def two_days_example_def)
  have n: "observeCount [Observe 1 True] = 1" "observeCount [] = 0"
    "windowAfter 0 = none_seen" "windowAfter 1 = one_seen"
    "run new_RoboMemory [] = Some new_RoboMemory"
    by (simp_all add: observeCount_def windowAfter_def)
  have w2: "windowOf two_days_example = Some two_or_more_seen"
    by (simp add: windowOf_def two_days_example_def)
  have l: "lastPlanetID one_seen_example \<noteq> None" "lastLastPlanetID one_seen_example = None"
    by (simp_all add: one_seen_example_def)
  from window_progress
    [of "[Observe 1 True]" one_seen_example "[Predict 2 True, Observe 2 True]" two_days_example]
    window_progress [of "[]" new_RoboMemory "[]" new_RoboMemory]
    r n w2 l
  show ?thesis by (simp add: two_days_example_def)
qed

text \<open>
  C10. No call removes a key. Along any call sequence, from any memory, every key of
  \<open>planetObservations\<close>, of \<open>planetPairObservations\<close> and of
  \<open>planetTripleObservations\<close> before the calls is a key after them; a single
  \<^verbatim>\<open>predict\<close> or \<^verbatim>\<open>observe\<close> call is the sequence of length one.
\<close>

theorem keys_never_removed:
  "(run m cs = Some m' \<longrightarrow>
      dom (planetObservations m) \<subseteq> dom (planetObservations m') \<and>
      dom (planetPairObservations m) \<subseteq> dom (planetPairObservations m') \<and>
      dom (planetTripleObservations m) \<subseteq> dom (planetTripleObservations m'))
   \<and> (observeAndRecordTimeofdayOnNextPlanet m p t = Some m'' \<longrightarrow>
      dom (planetObservations m) \<subseteq> dom (planetObservations m'') \<and>
      dom (planetPairObservations m) \<subseteq> dom (planetPairObservations m'') \<and>
      dom (planetTripleObservations m) \<subseteq> dom (planetTripleObservations m''))
   \<and> dom (planetObservations (snd (predictTimeOfDayOnNextPlanet m q h)))
        = dom (planetObservations m)
   \<and> dom (planetPairObservations (snd (predictTimeOfDayOnNextPlanet m q h)))
        = dom (planetPairObservations m)
   \<and> dom (planetTripleObservations (snd (predictTimeOfDayOnNextPlanet m q h)))
        = dom (planetTripleObservations m)"
  using run_dom [of m cs m'] observe_dom [of m p t m''] by (simp add: predict_snd)

text \<open>The pair (1, 2) was recorded as day; after a prediction and two more visits it
  is recorded as night, and it is still a key.\<close>

theorem keys_never_removed_witness:
  "run two_days_example [Predict 9 True, Observe 1 False, Observe 2 False]
     = Some four_visits_example \<and>
   planetPairObservations two_days_example (1, 2) = Some True \<and>
   planetPairObservations four_visits_example (1, 2) = Some False \<and>
   dom (planetObservations two_days_example) \<subseteq> dom (planetObservations four_visits_example) \<and>
   dom (planetPairObservations two_days_example)
     \<subseteq> dom (planetPairObservations four_visits_example) \<and>
   dom (planetTripleObservations two_days_example)
     \<subseteq> dom (planetTripleObservations four_visits_example) \<and>
   observeAndRecordTimeofdayOnNextPlanet new_RoboMemory 1 True = Some one_seen_example \<and>
   dom (planetObservations new_RoboMemory) \<subseteq> dom (planetObservations one_seen_example)"
proof -
  have r: "run two_days_example [Predict 9 True, Observe 1 False, Observe 2 False]
      = Some four_visits_example"
    by (simp add: run_eval two_days_example_def four_visits_example_def)
  have o: "observeAndRecordTimeofdayOnNextPlanet new_RoboMemory 1 True = Some one_seen_example"
    by (simp add: run_eval one_seen_example_def)
  have v: "planetPairObservations two_days_example (1, 2) = Some True"
    "planetPairObservations four_visits_example (1, 2) = Some False"
    by (simp_all add: two_days_example_def four_visits_example_def)
  from keys_never_removed
    [of two_days_example "[Predict 9 True, Observe 1 False, Observe 2 False]"
        four_visits_example 1 True one_seen_example 9 True]
    keys_never_removed [of new_RoboMemory "[]" new_RoboMemory 1 True one_seen_example 9 True]
    r o v
  show ?thesis by simp
qed

end
